theory Spec2Isabelle
  imports Complex_Main
begin

section \<open>The ZenB session kernel\<close>

text \<open>
  A shallow embedding of the breathing-session kernel: the types of \<^verbatim>\<open>types.ts\<close>, the
  inference model, the safety guard and the event reducer of \<^verbatim>\<open>ZenBKernel.ts\<close>.

  A TypeScript \<^verbatim>\<open>number\<close> is modelled as an exact \<^typ>\<open>real\<close>: the arithmetic of the
  kernel is read as the arithmetic it denotes, without the rounding of IEEE doubles and
  without NaN or the infinities; the entropy function, whose lower bound depends on the
  rounding, is given in double precision as well. Strings are \<^typ>\<open>string\<close>, a \<^verbatim>\<open>Record<string, T>\<close>
  is a map from strings that holds the object's own keys, and a value that may be
  \<^verbatim>\<open>null\<close> or \<^verbatim>\<open>undefined\<close> is an option. An exception that the code raises is a
  value: a function that can throw returns \<open>Inl\<close> of the error or \<open>Inr\<close> of its result.
\<close>

subsection \<open>Types\<close>

datatype BreathPhase = inhale | holdIn | exhale | holdOut

datatype ColorTheme = warm | cool | neutral

datatype Interaction = pause | resume | touch

datatype Visibility = visible | hidden

datatype InterruptionKind = kind_pause | kind_background

record BeliefState =
  arousal :: real
  attention :: real
  rhythm_alignment :: real

record Observation =
  timestamp :: real
  user_interaction :: "Interaction option"
  visibilty_state :: Visibility
  delta_time :: real

text \<open>
  The events, with the fields of the source in the source's order; the last argument of
  every constructor is the timestamp.
\<close>

datatype KernelEvent =
    BOOT real
  | LOAD_PROTOCOL string real
  | START_SESSION real
  | TICK real real
  | PHASE_TRANSITION BreathPhase BreathPhase real
  | CYCLE_COMPLETE real real
  | USER_INTERRUPTION InterruptionKind real
  | RESUME_SESSION real
  | HALT string real
  | SAFETY_INTERVENTION real string real

record TraumaRecord =
  patternId :: string
  total_exposure_seconds :: real
  adverse_events :: real
  resonance_score :: real
  last_updated :: real

text \<open>
  \<^verbatim>\<open>timings\<close> is a \<^verbatim>\<open>Record<BreathPhase, number>\<close>, a total function on the four phases;
  the field \<^verbatim>\<open>id\<close> is named \<open>id_p\<close>, as \<open>id\<close> is the identity function of HOL.
\<close>

record BreathPattern =
  id_p :: string
  label :: string
  tag :: string
  description :: string
  timings :: "BreathPhase \<Rightarrow> real"
  colorTheme :: ColorTheme
  recommendedCycles :: real
  tier :: nat

fun mk_timings :: "real \<Rightarrow> real \<Rightarrow> real \<Rightarrow> real \<Rightarrow> BreathPhase \<Rightarrow> real" where
  "mk_timings i hi e ho inhale = i"
| "mk_timings i hi e ho holdIn = hi"
| "mk_timings i hi e ho exhale = e"
| "mk_timings i hi e ho holdOut = ho"

definition BREATHING_PATTERNS :: "string \<rightharpoonup> BreathPattern" where
  "BREATHING_PATTERNS = map_of
    [(''4-7-8'', \<lparr>id_p = ''4-7-8'', label = ''Tranquility'', tag = ''Sleep & Anxiety'',
        description = ''A natural tranquilizer for the nervous system.'',
        timings = mk_timings 4 7 8 0, colorTheme = warm, recommendedCycles = 4, tier = 1\<rparr>),
     (''box'', \<lparr>id_p = ''box'', label = ''Focus'', tag = ''Concentration'',
        description = ''Used by Navy SEALs to heighten performance.'',
        timings = mk_timings 4 4 4 4, colorTheme = neutral, recommendedCycles = 6, tier = 1\<rparr>),
     (''calm'', \<lparr>id_p = ''calm'', label = ''Balance'', tag = ''Coherence'',
        description = ''Restores balance to your heart rate variability.'',
        timings = mk_timings 4 0 6 0, colorTheme = cool, recommendedCycles = 8, tier = 1\<rparr>),
     (''coherence'', \<lparr>id_p = ''coherence'', label = ''Coherence'', tag = ''Heart Health'',
        description = ''Optimizes Heart Rate Variability (HRV). The '' @ [CHR 0x22]
          @ ''Golden Ratio'' @ [CHR 0x22] @ '' of breathing.'',
        timings = mk_timings 6 0 6 0, colorTheme = cool, recommendedCycles = 10, tier = 2\<rparr>),
     (''deep-relax'', \<lparr>id_p = ''deep-relax'', label = ''Deep Rest'', tag = ''Stress Relief'',
        description = ''Doubling the exhalation to trigger the parasympathetic system.'',
        timings = mk_timings 4 0 8 0, colorTheme = warm, recommendedCycles = 6, tier = 1\<rparr>),
     (''7-11'', \<lparr>id_p = ''7-11'', label = ''7-11'', tag = ''Deep Calm'',
        description = ''A powerful technique for panic attacks and deep anxiety.'',
        timings = mk_timings 7 0 11 0, colorTheme = warm, recommendedCycles = 4, tier = 2\<rparr>),
     (''awake'', \<lparr>id_p = ''awake'', label = ''Energize'', tag = ''Wake Up'',
        description = ''Fast-paced rhythm to boost alertness and energy levels.'',
        timings = mk_timings 4 0 2 0, colorTheme = cool, recommendedCycles = 15, tier = 2\<rparr>),
     (''triangle'', \<lparr>id_p = ''triangle'', label = ''Triangle'', tag = ''Yoga'',
        description = ''A geometric pattern for emotional stability and control.'',
        timings = mk_timings 4 4 4 0, colorTheme = neutral, recommendedCycles = 8, tier = 1\<rparr>),
     (''tactical'', \<lparr>id_p = ''tactical'', label = ''Tactical'', tag = ''Advanced Focus'',
        description = ''Extended Box Breathing for high-stress situations.'',
        timings = mk_timings 5 5 5 5, colorTheme = neutral, recommendedCycles = 5, tier = 2\<rparr>),
     (''buteyko'', \<lparr>id_p = ''buteyko'', label = ''Light Air'', tag = ''Health'',
        description = ''Reduced breathing to improve oxygen uptake (Buteyko Method).'',
        timings = mk_timings 3 0 3 4, colorTheme = cool, recommendedCycles = 12, tier = 3\<rparr>),
     (''wim-hof'', \<lparr>id_p = ''wim-hof'', label = ''Tummo Power'', tag = ''Immunity'',
        description = ''Controlled hyperventilation phase. Charge your body with oxygen.'',
        timings = mk_timings 2.5 0 1.5 0, colorTheme = warm, recommendedCycles = 30, tier = 3\<rparr>)]"

text \<open>
  The catalog is a plain object, and the reducer reads it with \<^verbatim>\<open>BREATHING_PATTERNS[id]\<close>.
  Indexing a plain object finds its own keys and, for any other key, the properties it
  inherits from \<^verbatim>\<open>Object.prototype\<close>: the standard ones are listed. An inherited
  property is a function or the prototype object itself, so it is truthy, it is no
  pattern, and its \<^verbatim>\<open>timings\<close> is \<^verbatim>\<open>undefined\<close>.
\<close>

definition Object_prototype :: "string list" where
  "Object_prototype =
     [''constructor'', ''__defineGetter__'', ''__defineSetter__'', ''hasOwnProperty'',
      ''__lookupGetter__'', ''__lookupSetter__'', ''isPrototypeOf'',
      ''propertyIsEnumerable'', ''toString'', ''valueOf'', ''__proto__'',
      ''toLocaleString'']"

datatype Lookup = Absent | Own BreathPattern | Inherited

definition BREATHING_PATTERNS_index :: "string \<Rightarrow> Lookup" where
  "BREATHING_PATTERNS_index key =
     (case BREATHING_PATTERNS key of
        Some p \<Rightarrow> Own p
      | None \<Rightarrow> if key \<in> set Object_prototype then Inherited else Absent)"

datatype error = TypeError

subsection \<open>Runtime state\<close>

datatype Status = IDLE | RUNNING | PAUSED | HALTED | SAFETY_LOCK

record RuntimeState =
  status :: Status
  pattern :: "BreathPattern option"
  phase :: BreathPhase
  phaseElapsed :: real
  phaseDuration :: real
  cycleCount :: real
  sessionDuration :: real
  belief :: BeliefState
  entropy :: real

text \<open>
  What the kernel reads from its host while it handles one dispatch: \<^verbatim>\<open>document.hidden\<close>
  and the clock \<^verbatim>\<open>Date.now()\<close>. The clock only fills the timestamps of the events the
  kernel raises itself; no reduction reads a timestamp.
\<close>

record Host =
  document_hidden :: bool
  Date_now :: real

subsection \<open>Active inference model\<close>

definition update :: "BeliefState \<Rightarrow> Observation \<Rightarrow> bool \<Rightarrow> BeliefState" where
  "update currentBelief observation isRunning =
     (let dt = delta_time observation;
          a = arousal currentBelief;
          att = attention currentBelief;
          ra = rhythm_alignment currentBelief
      in if \<not> isRunning then
           \<lparr>arousal = max 0 (a - 0.1 * dt),
            attention = max 0 (att - 0.2 * dt),
            rhythm_alignment = max 0 (ra - 0.1 * dt)\<rparr>
         else
           let isInterrupted = (visibilty_state observation = hidden
                                \<or> user_interaction observation = Some pause)
           in if isInterrupted then
                \<lparr>arousal = min 1.0 (a + 0.3 * dt),
                 attention = max 0.0 (att - 0.5 * dt),
                 rhythm_alignment = max 0.0 (ra - 0.4 * dt)\<rparr>
              else
                \<lparr>arousal = max 0.0 (a - 0.05 * dt),
                 attention = min 1.0 (att + 0.1 * dt),
                 rhythm_alignment = min 1.0 (ra + 0.2 * dt)\<rparr>)"

definition calculateEntropy :: "BeliefState \<Rightarrow> real" where
  "calculateEntropy b = min 1.0 (max 0 (arousal b * (1.0 - rhythm_alignment b * 0.8)))"

subsection \<open>Double precision\<close>

text \<open>
  Where a property depends on the rounding of the code's numbers, the function is given
  a second time in the arithmetic the code runs: every operation returns the IEEE 754
  binary64 number nearest to the exact result, ties going to the even significand.
  \<open>binary64\<close> is that rounding for the reals below the overflow threshold, with the
  subnormal numbers at the exponent -1074; a literal of the source is the double nearest
  to it, and 0 and 1.0 are doubles themselves.
\<close>

definition round_ties_even :: "real \<Rightarrow> int" where
  "round_ties_even x =
     (let f = \<lfloor>x\<rfloor>; d = x - of_int f
      in if d < 1 / 2 then f else if 1 / 2 < d then f + 1 else if even f then f else f + 1)"

definition binary64_exponent :: "real \<Rightarrow> int" where
  "binary64_exponent x = max (- 1074) (\<lfloor>log 2 \<bar>x\<bar>\<rfloor> - 52)"

definition binary64 :: "real \<Rightarrow> real" where
  "binary64 x =
     (if x = 0 then 0
      else of_int (round_ties_even (x / 2 powr of_int (binary64_exponent x)))
           * 2 powr of_int (binary64_exponent x))"

text \<open>\<^verbatim>\<open>calculateEntropy\<close> as the doubles compute it.\<close>

definition calculateEntropy_binary64 :: "BeliefState \<Rightarrow> real" where
  "calculateEntropy_binary64 b =
     min 1.0 (max 0 (binary64 (arousal b
       * binary64 (1.0 - binary64 (rhythm_alignment b * binary64 0.8)))))"

text \<open>The double that \<^verbatim>\<open>1.0 - 0.8\<close> evaluates to: 0.19999999999999996 when printed.\<close>

definition residue64 :: real where
  "residue64 = 900719925474099 / 4503599627370496"

subsection \<open>Safety guard\<close>

text \<open>
  The registry is read with \<^verbatim>\<open>registry[state.pattern.id]\<close>. A key that the registry does
  not own gives \<^verbatim>\<open>undefined\<close> or an inherited property; neither has a resonance score
  below 0.3 (the comparison of \<^verbatim>\<open>undefined\<close> with a number is false), so both are no
  record to the guard.
\<close>

definition check :: "Host \<Rightarrow> RuntimeState \<Rightarrow> (string \<rightharpoonup> TraumaRecord) \<Rightarrow> KernelEvent option" where
  "check h s registry =
     (case pattern s of
        None \<Rightarrow> None
      | Some p \<Rightarrow>
          if (case registry (id_p p) of
                None \<Rightarrow> False
              | Some record \<Rightarrow> resonance_score record < 0.3 \<and> entropy s > 0.8)
          then Some (SAFETY_INTERVENTION 0.9 ''HALT_PREVENTATIVE'' (Date_now h))
          else if tier p = 2 \<and> cycleCount s > 30 \<and> arousal (belief s) > 0.9
          then Some (SAFETY_INTERVENTION 0.8 ''COOLDOWN_FORCED'' (Date_now h))
          else None)"

subsection \<open>Phase machine interface\<close>

text \<open>
  The kernel imports \<^verbatim>\<open>nextPhaseSkipZero\<close> and \<^verbatim>\<open>isCycleBoundary\<close> from the module
  \<^verbatim>\<open>phaseMachine\<close>. The kernel's functions take the two as a parameter, so that what is
  proved of the kernel for every \<open>pm\<close> does not depend on what that module computes.
\<close>

record PhaseMachine =
  pm_nextPhaseSkipZero :: "BreathPhase \<Rightarrow> BreathPattern \<Rightarrow> BreathPhase"
  pm_isCycleBoundary :: "BreathPhase \<Rightarrow> bool"

subsection \<open>Kernel\<close>

text \<open>
  The kernel object: its runtime state, its event log and the trust registry bound to it.
  The subscriber set is left out: \<^verbatim>\<open>notify\<close> hands every subscriber a copy of the state
  after each dispatch, and the model takes subscribers to be observers that do not call
  back into the kernel.
\<close>

record ZenBKernel =
  state :: RuntimeState
  eventLog :: "KernelEvent list"
  safetyRegistry :: "string \<rightharpoonup> TraumaRecord"

text \<open>The statement after the \<^verbatim>\<open>switch\<close> of \<^verbatim>\<open>reduce\<close>.\<close>

definition recalculateEntropy :: "ZenBKernel \<Rightarrow> ZenBKernel" where
  "recalculateEntropy k = k\<lparr>state := (state k)\<lparr>entropy := calculateEntropy (belief (state k))\<rparr>\<rparr>"

text \<open>
  \<^verbatim>\<open>dispatch\<close>, \<^verbatim>\<open>reduce\<close>, \<^verbatim>\<open>handleTick\<close> and \<^verbatim>\<open>transitionPhase\<close> call one another:
  a tick dispatches the events it raises. Every function takes the kernel and returns
  the kernel after its effects, or the exception that it lets escape. In \<^verbatim>\<open>reduce\<close>, a
  \<^verbatim>\<open>LOAD_PROTOCOL\<close> whose lookup is \<^verbatim>\<open>undefined\<close> returns before the entropy is
  recomputed, and \<^verbatim>\<open>BOOT\<close> matches no case of the \<^verbatim>\<open>switch\<close>. A \<^verbatim>\<open>LOAD_PROTOCOL\<close> whose
  lookup is an inherited property passes the test \<^verbatim>\<open>!pattern\<close>, assigns it to
  \<^verbatim>\<open>state.pattern\<close>, assigns the phase and then reads \<^verbatim>\<open>pattern.timings.inhale\<close>, which
  raises a TypeError that no caller in the kernel catches. The kernel object is then left
  with a pattern that is no \<^verbatim>\<open>BreathPattern\<close>; the model does not follow it further and
  gives the error as the result. The recursion ends because the events raised inside a
  tick are never ticks.
\<close>

function dispatch :: "PhaseMachine \<Rightarrow> Host \<Rightarrow> ZenBKernel \<Rightarrow> KernelEvent \<Rightarrow> error + ZenBKernel"
  and reduce :: "PhaseMachine \<Rightarrow> Host \<Rightarrow> ZenBKernel \<Rightarrow> KernelEvent \<Rightarrow> error + ZenBKernel"
  and handleTick :: "PhaseMachine \<Rightarrow> Host \<Rightarrow> ZenBKernel \<Rightarrow> real \<Rightarrow> error + ZenBKernel"
  and transitionPhase :: "PhaseMachine \<Rightarrow> Host \<Rightarrow> ZenBKernel \<Rightarrow> error + ZenBKernel"
where
  "dispatch pm h k event = reduce pm h (k\<lparr>eventLog := eventLog k @ [event]\<rparr>) event"
| "reduce pm h k (LOAD_PROTOCOL pid ts) =
     (case BREATHING_PATTERNS_index pid of
        Absent \<Rightarrow> Inr k
      | Inherited \<Rightarrow> Inl TypeError
      | Own p \<Rightarrow>
          Inr (recalculateEntropy (k\<lparr>state := (state k)\<lparr>
            pattern := Some p,
            phase := inhale,
            phaseDuration := timings p inhale,
            phaseElapsed := 0,
            cycleCount := 0,
            sessionDuration := 0,
            status := IDLE,
            belief := (belief (state k))\<lparr>rhythm_alignment := 0.0\<rparr>\<rparr>\<rparr>)))"
| "reduce pm h k (START_SESSION ts) =
     Inr (recalculateEntropy
       (if pattern (state k) \<noteq> None then k\<lparr>state := (state k)\<lparr>status := RUNNING\<rparr>\<rparr> else k))"
| "reduce pm h k (USER_INTERRUPTION kind ts) =
     Inr (recalculateEntropy
       (if status (state k) = RUNNING
        then k\<lparr>state := (state k)\<lparr>
               status := PAUSED,
               belief := (belief (state k))\<lparr>
                 attention := attention (belief (state k)) * 0.8,
                 rhythm_alignment := rhythm_alignment (belief (state k)) * 0.5\<rparr>\<rparr>\<rparr>
        else k))"
| "reduce pm h k (RESUME_SESSION ts) =
     Inr (recalculateEntropy
       (if status (state k) = PAUSED then k\<lparr>state := (state k)\<lparr>status := RUNNING\<rparr>\<rparr> else k))"
| "reduce pm h k (HALT reason ts) =
     Inr (recalculateEntropy (k\<lparr>state := (state k)\<lparr>status := IDLE\<rparr>\<rparr>))"
| "reduce pm h k (SAFETY_INTERVENTION riskLevel action ts) =
     Inr (recalculateEntropy (k\<lparr>state := (state k)\<lparr>status := SAFETY_LOCK\<rparr>\<rparr>))"
| "reduce pm h k (PHASE_TRANSITION from to ts) =
     Inr (recalculateEntropy (k\<lparr>state := (state k)\<lparr>
       phase := to,
       phaseElapsed := 0,
       phaseDuration := (case pattern (state k) of Some p \<Rightarrow> timings p to | None \<Rightarrow> 0)\<rparr>\<rparr>))"
| "reduce pm h k (CYCLE_COMPLETE count ts) =
     Inr (recalculateEntropy (k\<lparr>state := (state k)\<lparr>cycleCount := count\<rparr>\<rparr>))"
| "reduce pm h k (TICK dt ts) =
     (case handleTick pm h k dt of
        Inl e \<Rightarrow> Inl e
      | Inr k' \<Rightarrow> Inr (recalculateEntropy k'))"
| "reduce pm h k (BOOT ts) = Inr (recalculateEntropy k)"
| "handleTick pm h k dt =
     (let obs = \<lparr>timestamp = Date_now h,
                 user_interaction = (if status (state k) = PAUSED then Some pause else None),
                 visibilty_state = (if document_hidden h then hidden else visible),
                 delta_time = dt\<rparr>;
          k1 = k\<lparr>state := (state k)\<lparr>
                 belief := update (belief (state k)) obs (status (state k) = RUNNING)\<rparr>\<rparr>
      in if status (state k1) \<noteq> RUNNING \<or> pattern (state k1) = None then Inr k1
         else
           let k2 = k1\<lparr>state := (state k1)\<lparr>
                      phaseElapsed := phaseElapsed (state k1) + dt,
                      sessionDuration := sessionDuration (state k1) + dt\<rparr>\<rparr>
           in (case (if phaseElapsed (state k2) \<ge> phaseDuration (state k2)
                     then transitionPhase pm h k2 else Inr k2) of
                 Inl e \<Rightarrow> Inl e
               | Inr k3 \<Rightarrow>
                   (case check h (state k3) (safetyRegistry k3) of
                      None \<Rightarrow> Inr k3
                    | Some hazard \<Rightarrow> dispatch pm h k3 hazard)))"
| "transitionPhase pm h k =
     (case pattern (state k) of
        None \<Rightarrow> Inr k
      | Some p \<Rightarrow>
          (let currentP = phase (state k);
               nextP = pm_nextPhaseSkipZero pm currentP p
           in (case dispatch pm h k (PHASE_TRANSITION currentP nextP (Date_now h)) of
                 Inl e \<Rightarrow> Inl e
               | Inr k1 \<Rightarrow>
                   if pm_isCycleBoundary pm nextP
                   then dispatch pm h k1
                          (CYCLE_COMPLETE (cycleCount (state k1) + 1) (Date_now h))
                   else Inr k1)))"
  by pat_completeness auto
termination
  apply (relation "measure (\<lambda>x. case x of
      Inl (Inl (pm, h, k, ev)) \<Rightarrow> (case ev of TICK dt ts \<Rightarrow> 6 | _ \<Rightarrow> 2)
    | Inl (Inr (pm, h, k, ev)) \<Rightarrow> (case ev of TICK dt ts \<Rightarrow> 5 | _ \<Rightarrow> 1)
    | Inr (Inl (pm, h, k, dt)) \<Rightarrow> 4
    | Inr (Inr (pm, h, k)) \<Rightarrow> 3)")
  apply (auto simp: check_def split: KernelEvent.splits option.splits if_splits)
  done

text \<open>
  The equations of the four functions are unfolded on demand, one dispatch at a time.
\<close>

declare dispatch.simps [simp del]
declare handleTick.simps [simp del]
declare transitionPhase.simps [simp del]

definition getInitialState :: RuntimeState where
  "getInitialState =
     \<lparr>status = IDLE,
      pattern = None,
      phase = inhale,
      phaseElapsed = 0,
      phaseDuration = 0,
      cycleCount = 0,
      sessionDuration = 0,
      belief = \<lparr>arousal = 0.2, attention = 0.5, rhythm_alignment = 0.0\<rparr>,
      entropy = 0.2\<rparr>"

text \<open>The constructor: the initial state, an empty log and registry, then the \<^verbatim>\<open>BOOT\<close> event.\<close>

definition new_ZenBKernel :: "PhaseMachine \<Rightarrow> Host \<Rightarrow> error + ZenBKernel" where
  "new_ZenBKernel pm h =
     dispatch pm h \<lparr>state = getInitialState, eventLog = [], safetyRegistry = Map.empty\<rparr>
       (BOOT (Date_now h))"

definition setSafetyRegistry :: "ZenBKernel \<Rightarrow> (string \<rightharpoonup> TraumaRecord) \<Rightarrow> ZenBKernel" where
  "setSafetyRegistry k registry = k\<lparr>safetyRegistry := registry\<rparr>"

definition getState :: "ZenBKernel \<Rightarrow> RuntimeState" where
  "getState k = state k"

text \<open>
  A caller's sequence of dispatches, each with what the host shows while it is handled;
  it ends at the first dispatch that throws.
\<close>

fun dispatchAll :: "PhaseMachine \<Rightarrow> ZenBKernel \<Rightarrow> (Host \<times> KernelEvent) list \<Rightarrow> error + ZenBKernel" where
  "dispatchAll pm k [] = Inr k"
| "dispatchAll pm k ((h, event) # rest) =
     (case dispatch pm h k event of
        Inl e \<Rightarrow> Inl e
      | Inr k' \<Rightarrow> dispatchAll pm k' rest)"

text \<open>
  The kernels that a program can hold: the constructed one, and what the public methods
  \<^verbatim>\<open>dispatch\<close> and \<^verbatim>\<open>setSafetyRegistry\<close> return for a kernel it holds.
\<close>

inductive reachable :: "PhaseMachine \<Rightarrow> ZenBKernel \<Rightarrow> bool" for pm :: PhaseMachine where
  reachable_new: "new_ZenBKernel pm h = Inr k \<Longrightarrow> reachable pm k"
| reachable_dispatch: "reachable pm k \<Longrightarrow> dispatch pm h k event = Inr k' \<Longrightarrow> reachable pm k'"
| reachable_registry: "reachable pm k \<Longrightarrow> reachable pm (setSafetyRegistry k registry)"

subsection \<open>Phase machine\<close>

text \<open>
  Modelled from the spec: the module \<^verbatim>\<open>phaseMachine\<close> (\<^verbatim>\<open>nextPhaseSkipZero\<close> and
  \<^verbatim>\<open>isCycleBoundary\<close>) is imported by the kernel and is not among the sources. The
  specification gives the next phase as the successor in the fixed cyclic order
  inhale, hold-in, exhale, hold-out, inhale, skipping every phase whose configured
  duration is zero, with at most three skips; a phase is a cycle boundary exactly when
  it is inhale.
\<close>

fun successor :: "BreathPhase \<Rightarrow> BreathPhase" where
  "successor inhale = holdIn"
| "successor holdIn = exhale"
| "successor exhale = holdOut"
| "successor holdOut = inhale"

fun skipZero :: "nat \<Rightarrow> BreathPattern \<Rightarrow> BreathPhase \<Rightarrow> BreathPhase" where
  "skipZero 0 p ph = ph"
| "skipZero (Suc n) p ph = (if timings p ph = 0 then skipZero n p (successor ph) else ph)"

definition nextPhaseSkipZero :: "BreathPhase \<Rightarrow> BreathPattern \<Rightarrow> BreathPhase" where
  "nextPhaseSkipZero current p = skipZero 3 p (successor current)"

definition isCycleBoundary :: "BreathPhase \<Rightarrow> bool" where
  "isCycleBoundary ph = (ph = inhale)"

definition phaseMachine :: PhaseMachine where
  "phaseMachine =
     \<lparr>pm_nextPhaseSkipZero = nextPhaseSkipZero, pm_isCycleBoundary = isCycleBoundary\<rparr>"

subsection \<open>Vocabulary of the properties\<close>

text \<open>A belief vector whose three components lie in the unit interval.\<close>

definition unit_range :: "BeliefState \<Rightarrow> bool" where
  "unit_range b =
     (0 \<le> arousal b \<and> arousal b \<le> 1 \<and> 0 \<le> attention b \<and> attention b \<le> 1
      \<and> 0 \<le> rhythm_alignment b \<and> rhythm_alignment b \<le> 1)"

text \<open>
  The entropy equation in the words of the specification: the entropy of a state is
  \<open>clamp01 (arousal * (1 - 0.8 * rhythm_alignment))\<close> of its belief.
\<close>

definition clamp01 :: "real \<Rightarrow> real" where
  "clamp01 x = min 1 (max 0 x)"

definition entropy_of_belief :: "RuntimeState \<Rightarrow> bool" where
  "entropy_of_belief s =
     (entropy s = clamp01 (arousal (belief s) * (1 - 0.8 * rhythm_alignment (belief s))))"


definition resolving :: "KernelEvent \<Rightarrow> bool" where
  "resolving event =
     (case event of
        LOAD_PROTOCOL pid ts \<Rightarrow> BREATHING_PATTERNS pid \<noteq> None
      | _ \<Rightarrow> False)"


definition cycle_event :: "KernelEvent \<Rightarrow> bool" where
  "cycle_event event = (case event of CYCLE_COMPLETE c ts \<Rightarrow> True | _ \<Rightarrow> False)"

text \<open>
  Whether a tick of \<open>dt\<close> seconds closes a cycle: the session runs, the phase is over
  after \<open>dt\<close> more seconds, and the next phase is a cycle boundary.
\<close>

definition closes_cycle :: "PhaseMachine \<Rightarrow> ZenBKernel \<Rightarrow> real \<Rightarrow> bool" where
  "closes_cycle pm k dt =
     (status (state k) = RUNNING
      \<and> (case pattern (state k) of
            None \<Rightarrow> False
          | Some p \<Rightarrow>
              phaseDuration (state k) \<le> phaseElapsed (state k) + dt
              \<and> pm_isCycleBoundary pm (pm_nextPhaseSkipZero pm (phase (state k)) p)))"

text \<open>
  A kernel that runs the pattern \<^verbatim>\<open>box\<close> at the start of a phase, with no trust record
  for it.
\<close>

definition box_running :: "ZenBKernel \<Rightarrow> bool" where
  "box_running k =
     (status (state k) = RUNNING \<and> pattern (state k) = BREATHING_PATTERNS ''box''
      \<and> phaseElapsed (state k) = 0 \<and> phaseDuration (state k) = 4
      \<and> safetyRegistry k ''box'' = None)"

subsection \<open>Example sessions\<close>

definition host0 :: Host where
  "host0 = \<lparr>document_hidden = False, Date_now = 0\<rparr>"

text \<open>The constructed kernel.\<close>

definition kernel0 :: ZenBKernel where
  "kernel0 = \<lparr>state = getInitialState, eventLog = [BOOT 0], safetyRegistry = Map.empty\<rparr>"

text \<open>One second into a session of \<^verbatim>\<open>box\<close>.\<close>

definition box_session :: ZenBKernel where
  "box_session =
     \<lparr>state =
        \<lparr>status = RUNNING, pattern = BREATHING_PATTERNS ''box'', phase = inhale,
         phaseElapsed = 1, phaseDuration = 4, cycleCount = 0, sessionDuration = 1,
         belief = \<lparr>arousal = 0.15, attention = 0.6, rhythm_alignment = 0.2\<rparr>,
         entropy = 0.126\<rparr>,
      eventLog = [BOOT 0, LOAD_PROTOCOL ''box'' 0, START_SESSION 0, TICK 1 0],
      safetyRegistry = Map.empty\<rparr>"

text \<open>A session of \<^verbatim>\<open>box\<close> paused right after its start.\<close>

definition paused_box :: ZenBKernel where
  "paused_box =
     \<lparr>state =
        \<lparr>status = PAUSED, pattern = BREATHING_PATTERNS ''box'', phase = inhale,
         phaseElapsed = 0, phaseDuration = 4, cycleCount = 0, sessionDuration = 0,
         belief = \<lparr>arousal = 0.2, attention = 0.4, rhythm_alignment = 0\<rparr>,
         entropy = 0.2\<rparr>,
      eventLog = [BOOT 0, LOAD_PROTOCOL ''box'' 0, START_SESSION 0,
                  USER_INTERRUPTION kind_pause 0],
      safetyRegistry = Map.empty\<rparr>"

text \<open>
  A running session of \<^verbatim>\<open>box\<close> at the start of a hold-out phase, with two cycles
  counted.
\<close>

definition box_hold_out :: ZenBKernel where
  "box_hold_out =
     \<lparr>state =
        \<lparr>status = RUNNING, pattern = BREATHING_PATTERNS ''box'', phase = holdOut,
         phaseElapsed = 0, phaseDuration = 4, cycleCount = 2, sessionDuration = 44,
         belief = \<lparr>arousal = 0, attention = 1, rhythm_alignment = 1\<rparr>,
         entropy = 0\<rparr>,
      eventLog = [],
      safetyRegistry = Map.empty\<rparr>"

definition aroused_state :: RuntimeState where
  "aroused_state = getInitialState\<lparr>
     status := RUNNING,
     pattern := BREATHING_PATTERNS ''coherence'',
     cycleCount := 31,
     belief := \<lparr>arousal = 0.95, attention = 0.5, rhythm_alignment = 0\<rparr>,
     entropy := 0.95\<rparr>"

definition distrusted :: "string \<rightharpoonup> TraumaRecord" where
  "distrusted = [''coherence'' \<mapsto>
     \<lparr>patternId = ''coherence'', total_exposure_seconds = 120, adverse_events = 4,
      resonance_score = 0.1, last_updated = 0\<rparr>]"

section \<open>Properties\<close>

subsection \<open>Auxiliary facts\<close>

lemma state_recalculateEntropy:
  "state (recalculateEntropy k) = (state k)\<lparr>entropy := calculateEntropy (belief (state k))\<rparr>"
  "eventLog (recalculateEntropy k) = eventLog k"
  "safetyRegistry (recalculateEntropy k) = safetyRegistry k"
  by (simp_all add: recalculateEntropy_def)

lemma entropy_of_belief_iff:
  "entropy_of_belief s \<longleftrightarrow> entropy s = calculateEntropy (belief s)"
  by (simp add: entropy_of_belief_def clamp01_def calculateEntropy_def mult.commute)


lemma check_Some:
  "check h s registry = Some hazard \<Longrightarrow>
     hazard = SAFETY_INTERVENTION 0.9 ''HALT_PREVENTATIVE'' (Date_now h)
     \<or> hazard = SAFETY_INTERVENTION 0.8 ''COOLDOWN_FORCED'' (Date_now h)"
  by (auto simp: check_def split: option.splits if_splits)

lemma box_pattern:
  "BREATHING_PATTERNS ''box'' =
     Some \<lparr>id_p = ''box'', label = ''Focus'', tag = ''Concentration'',
        description = ''Used by Navy SEALs to heighten performance.'',
        timings = mk_timings 4 4 4 4, colorTheme = neutral, recommendedCycles = 6, tier = 1\<rparr>"
  by (simp add: BREATHING_PATTERNS_def)

lemma index_Own: "BREATHING_PATTERNS key = Some p \<Longrightarrow> BREATHING_PATTERNS_index key = Own p"
  by (simp add: BREATHING_PATTERNS_index_def)

lemma new_kernel0: "new_ZenBKernel phaseMachine host0 = Inr kernel0"
  by (simp add: kernel0_def new_ZenBKernel_def host0_def dispatch.simps recalculateEntropy_def
      getInitialState_def calculateEntropy_def)


lemma run_paused_box:
  "dispatchAll phaseMachine kernel0
     [(host0, LOAD_PROTOCOL ''box'' 0), (host0, START_SESSION 0),
      (host0, USER_INTERRUPTION kind_pause 0)]
   = Inr paused_box"
  by (simp add: paused_box_def kernel0_def box_pattern index_Own dispatch.simps
      recalculateEntropy_def getInitialState_def calculateEntropy_def)

lemma reachable_dispatchAll:
  "reachable pm k \<Longrightarrow> dispatchAll pm k evs = Inr k' \<Longrightarrow> reachable pm k'"
proof (induction evs arbitrary: k)
  case Nil
  then show ?case by simp
next
  case (Cons a evs)
  obtain h event where a: "a = (h, event)" by (cases a)
  from Cons.prems(2) a obtain k1 where d: "dispatch pm h k event = Inr k1"
    and r: "dispatchAll pm k1 evs = Inr k'"
    by (auto split: sum.splits)
  from Cons.prems(1) d have "reachable pm k1" by (rule reachable_dispatch)
  then show ?case using r by (rule Cons.IH)
qed

lemma reachable_kernel0: "reachable phaseMachine kernel0"
  using new_kernel0 by (rule reachable_new)


lemma reachable_paused_box: "reachable phaseMachine paused_box"
  using reachable_kernel0 run_paused_box by (rule reachable_dispatchAll)

subsection \<open>Safety guard\<close>

text \<open>
  Claim C1. For a state with a loaded pattern and any trust registry, the guard returns
  the intervention with risk 0.9 and action \<^verbatim>\<open>HALT_PREVENTATIVE\<close> when the registry holds a
  record for the active pattern with a resonance score below 0.3 and the entropy of the
  state exceeds 0.8; otherwise the intervention with risk 0.8 and action
  \<^verbatim>\<open>COOLDOWN_FORCED\<close> when the tier of the pattern is 2, more than 30 cycles are counted
  and the arousal exceeds 0.9; otherwise nothing. The first guard that matches wins, and
  the result is at most one event. The timestamp of the event is the clock of the host.
\<close>

theorem check_guards:
  "pattern s = Some p \<Longrightarrow>
   check h s registry =
     (if (\<exists>r. registry (id_p p) = Some r \<and> resonance_score r < 0.3) \<and> entropy s > 0.8
      then Some (SAFETY_INTERVENTION 0.9 ''HALT_PREVENTATIVE'' (Date_now h))
      else if tier p = 2 \<and> cycleCount s > 30 \<and> arousal (belief s) > 0.9
      then Some (SAFETY_INTERVENTION 0.8 ''COOLDOWN_FORCED'' (Date_now h))
      else None)"
  by (auto simp: check_def split: option.splits)

text \<open>
  On a state that satisfies both guards, the distrusted registry gives the preventive
  halt and the empty registry the forced cooldown; with 30 cycles neither guard fires.
\<close>

theorem check_guards_witness:
  "pattern aroused_state = BREATHING_PATTERNS ''coherence''
   \<and> check host0 aroused_state distrusted
       = Some (SAFETY_INTERVENTION 0.9 ''HALT_PREVENTATIVE'' 0)
   \<and> check host0 aroused_state Map.empty
       = Some (SAFETY_INTERVENTION 0.8 ''COOLDOWN_FORCED'' 0)
   \<and> check host0 (aroused_state\<lparr>cycleCount := 30\<rparr>) Map.empty = None"
proof -
  have p: "pattern aroused_state = Some (the (BREATHING_PATTERNS ''coherence''))"
    and q: "pattern (aroused_state\<lparr>cycleCount := 30\<rparr>)
              = Some (the (BREATHING_PATTERNS ''coherence''))"
    by (simp_all add: aroused_state_def BREATHING_PATTERNS_def)
  show ?thesis
    using check_guards [OF p, of host0 distrusted] check_guards [OF p, of host0 Map.empty]
      check_guards [OF q, of host0 Map.empty]
    by (simp add: aroused_state_def BREATHING_PATTERNS_def distrusted_def host0_def
        getInitialState_def)
qed

subsection \<open>Inference model\<close>

text \<open>
  Claim C5. For every belief vector, that is, three components in [0,1], every
  observation with a delta time of at least 0 and both values of the running flag, the
  three components of the updated belief lie in [0,1]: within the range, each branch of
  the update bounds a component on the side it moves towards.
\<close>

theorem update_range:
  "unit_range b \<Longrightarrow> 0 \<le> delta_time obs \<Longrightarrow> unit_range (update b obs isRunning)"
  by (auto simp: update_def unit_range_def Let_def min_def max_def)

text \<open>Three hidden seconds of a running session, from the initial belief.\<close>

theorem update_range_witness:
  "unit_range (belief getInitialState)
   \<and> update (belief getInitialState)
        \<lparr>timestamp = 0, user_interaction = None, visibilty_state = hidden, delta_time = 3\<rparr> True
      = \<lparr>arousal = 1, attention = 0, rhythm_alignment = 0\<rparr>
   \<and> unit_range (update (belief getInitialState)
        \<lparr>timestamp = 0, user_interaction = None, visibilty_state = hidden, delta_time = 3\<rparr> True)"
proof -
  have u: "unit_range (belief getInitialState)"
    by (simp add: unit_range_def getInitialState_def)
  have d: "0 \<le> delta_time \<lparr>timestamp = 0, user_interaction = None, visibilty_state = hidden,
      delta_time = 3\<rparr>" by simp
  show ?thesis using u update_range [OF u d, of True]
    by (simp add: update_def getInitialState_def)
qed

subsection \<open>Rounding to binary64\<close>

lemma round_ties_even_bounds:
  "\<lfloor>x\<rfloor> \<le> round_ties_even x" "round_ties_even x \<le> \<lfloor>x\<rfloor> + 1"
  by (simp_all add: round_ties_even_def Let_def)

lemma round_ties_even_mono: "x \<le> y \<Longrightarrow> round_ties_even x \<le> round_ties_even y"
proof -
  assume xy: "x \<le> y"
  then have f: "\<lfloor>x\<rfloor> \<le> \<lfloor>y\<rfloor>" by (rule floor_mono)
  show ?thesis
  proof (cases "\<lfloor>x\<rfloor> = \<lfloor>y\<rfloor>")
    case True
    then have "x - of_int \<lfloor>x\<rfloor> \<le> y - of_int \<lfloor>y\<rfloor>" using xy by simp
    with True show ?thesis by (auto simp: round_ties_even_def Let_def)
  next
    case False
    with f have "\<lfloor>x\<rfloor> + 1 \<le> \<lfloor>y\<rfloor>" by simp
    with round_ties_even_bounds(2) [of x] round_ties_even_bounds(1) [of y]
    show ?thesis by linarith
  qed
qed

lemma round_ties_even_of_int [simp]: "round_ties_even (of_int n) = n"
  by (simp add: round_ties_even_def)

lemma round_ties_even_ge: "of_int n \<le> x \<Longrightarrow> n \<le> round_ties_even x"
  using round_ties_even_mono [of "of_int n" x] by simp

lemma round_ties_even_le: "x \<le> of_int n \<Longrightarrow> round_ties_even x \<le> n"
  using round_ties_even_mono [of x "of_int n"] by simp

lemma binary64_exponent_mono:
  assumes "0 < x" "x \<le> y"
  shows "binary64_exponent x \<le> binary64_exponent y"
proof -
  from assms have "log 2 x \<le> log 2 y" by simp
  then have "\<lfloor>log 2 x\<rfloor> \<le> \<lfloor>log 2 y\<rfloor>" by (rule floor_mono)
  with assms show ?thesis by (simp add: binary64_exponent_def)
qed

lemma binary64_nonneg: "0 \<le> x \<Longrightarrow> 0 \<le> binary64 x"
proof -
  assume x: "0 \<le> x"
  have "0 \<le> x / 2 powr of_int (binary64_exponent x)" using x by simp
  then have "0 \<le> round_ties_even (x / 2 powr of_int (binary64_exponent x))"
    using round_ties_even_ge [of 0] by simp
  then show ?thesis by (simp add: binary64_def)
qed

lemma binary64_mono:
  assumes "0 \<le> x" "x \<le> y"
  shows "binary64 x \<le> binary64 y"
proof (cases "x = 0")
  case True
  with assms binary64_nonneg [of y] show ?thesis by (simp add: binary64_def)
next
  case False
  with assms have x: "0 < x" and y: "0 < y" by simp_all
  let ?ex = "binary64_exponent x" and ?ey = "binary64_exponent y"
  let ?ux = "(2::real) powr of_int ?ex" and ?uy = "(2::real) powr of_int ?ey"
  have u: "0 < ?ux" "0 < ?uy" by simp_all
  from binary64_exponent_mono [OF x assms(2)] have e: "?ex \<le> ?ey" .
  have bx: "binary64 x = of_int (round_ties_even (x / ?ux)) * ?ux"
    and vy: "binary64 y = of_int (round_ties_even (y / ?uy)) * ?uy"
    using x y by (simp_all add: binary64_def)
  show ?thesis
  proof (cases "?ex = ?ey")
    case True
    have "x / ?uy \<le> y / ?uy"
      using assms(2) by (simp add: divide_right_mono)
    then have "round_ties_even (x / ?uy) \<le> round_ties_even (y / ?uy)"
      by (rule round_ties_even_mono)
    then have "real_of_int (round_ties_even (x / ?uy)) \<le> real_of_int (round_ties_even (y / ?uy))"
      by simp
    then have "real_of_int (round_ties_even (x / ?uy)) * ?uy
        \<le> real_of_int (round_ties_even (y / ?uy)) * ?uy"
      using u(2) by (simp only: mult_le_cancel_right_pos)
    with bx vy True show ?thesis by simp
  next
    case False
    with e have lt: "?ex + 1 \<le> ?ey" by simp
    then have "- 1074 < ?ey" by (simp add: binary64_exponent_def)
    then have ey: "?ey = \<lfloor>log 2 y\<rfloor> - 52" using y by (simp add: binary64_exponent_def)
    have "real_of_int \<lfloor>log 2 y\<rfloor> \<le> log 2 y" by simp
    then have "(2::real) powr real_of_int \<lfloor>log 2 y\<rfloor> \<le> 2 powr log 2 y"
      by simp
    then have "(2::real) powr (real_of_int ?ey + 52) \<le> y" using y ey by simp
    then have "?uy * 2 powr 52 \<le> y" by (simp only: powr_add)
    then have "2 ^ 52 \<le> y / ?uy"
      using u(2) by (simp add: pos_le_divide_eq mult.commute)
    then have "real_of_int (2 ^ 52) \<le> y / ?uy" by simp
    then have "2 ^ 52 \<le> round_ties_even (y / ?uy)"
      by (rule round_ties_even_ge)
    then have "real_of_int (2 ^ 52) \<le> real_of_int (round_ties_even (y / ?uy))"
      by (simp only: of_int_le_iff)
    then have "real_of_int (2 ^ 52) * ?uy \<le> real_of_int (round_ties_even (y / ?uy)) * ?uy"
      using u(2) by (simp only: mult_le_cancel_right_pos)
    then have ly: "2 ^ 52 * ?uy \<le> binary64 y"
      unfolding vy by simp
    have "\<lfloor>log 2 x\<rfloor> - 52 \<le> ?ex" using x by (simp add: binary64_exponent_def)
    then have "\<lfloor>log 2 x\<rfloor> + 1 \<le> ?ex + 53" by simp
    then have "real_of_int (\<lfloor>log 2 x\<rfloor> + 1) \<le> real_of_int (?ex + 53)"
      by (simp only: of_int_le_iff)
    then have "real_of_int \<lfloor>log 2 x\<rfloor> + 1 \<le> real_of_int ?ex + 53" by simp
    moreover have "log 2 x < real_of_int \<lfloor>log 2 x\<rfloor> + 1" by linarith
    ultimately have "log 2 x < real_of_int ?ex + 53" by linarith
    then have "(2::real) powr log 2 x < 2 powr (real_of_int ?ex + 53)"
      by simp
    then have "x < ?ux * 2 powr 53" using x by (simp add: powr_add)
    then have "x / ?ux \<le> 2 ^ 53"
      using u(1) by (simp add: pos_divide_le_eq mult.commute)
    then have "x / ?ux \<le> real_of_int (2 ^ 53)" by simp
    then have "round_ties_even (x / ?ux) \<le> 2 ^ 53"
      by (rule round_ties_even_le)
    then have "real_of_int (round_ties_even (x / ?ux)) \<le> real_of_int (2 ^ 53)"
      by (simp only: of_int_le_iff)
    then have "real_of_int (round_ties_even (x / ?ux)) * ?ux \<le> real_of_int (2 ^ 53) * ?ux"
      using u(1) by (simp only: mult_le_cancel_right_pos)
    then have "binary64 x \<le> 2 ^ 53 * ?ux"
      unfolding bx by simp
    also have "\<dots> = 2 ^ 52 * (2::real) powr (real_of_int ?ex + 1)" by (simp add: powr_add)
    also have "\<dots> \<le> 2 ^ 52 * ?uy"
    proof -
      have "real_of_int (?ex + 1) \<le> real_of_int ?ey" using lt by (simp only: of_int_le_iff)
      then have "real_of_int ?ex + 1 \<le> real_of_int ?ey" by simp
      then have "(2::real) powr (real_of_int ?ex + 1) \<le> ?uy"
        by simp
      then show ?thesis by simp
    qed
    finally show ?thesis using ly by linarith
  qed
qed

lemma binary64_eval:
  assumes "1 / 2 ^ m \<le> x" "x < 2 / 2 ^ m" "m \<le> 1022"
  shows "binary64 x = of_int (round_ties_even (x * 2 ^ (m + 52))) / 2 ^ (m + 52)"
proof -
  have p: "(0::real) < 1 / 2 ^ m" by simp
  with assms(1) have x: "0 < x" by linarith
  have pw: "(2::real) powr real_of_int (- int k) = 1 / 2 ^ k" for k
    by (simp add: powr_minus powr_realpow divide_inverse)
  have "(2::real) powr real_of_int (- int m) \<le> x" using assms(1) by (simp only: pw)
  moreover have "x < (2::real) powr (real_of_int (- int m) + 1)"
    using assms(2) by (simp only: powr_add pw) simp
  ultimately have "\<lfloor>log 2 x\<rfloor> = - int m"
    using x by (simp only: floor_log_eq_powr_iff [of x 2 "- int m"]) simp
  then have "binary64_exponent x = - int (m + 52)"
    using x assms(3) by (simp add: binary64_exponent_def)
  then have "binary64 x =
      of_int (round_ties_even (x / (2::real) powr real_of_int (- int (m + 52))))
        * (2::real) powr real_of_int (- int (m + 52))"
    using x by (simp add: binary64_def)
  then show ?thesis by (simp only: pw) simp
qed

lemma binary64_08: "binary64 (4 / 5) = 3602879701896397 / 4503599627370496"
  using binary64_eval [of 1 "4 / 5"] by (simp add: round_ties_even_def Let_def)

lemma binary64_02: "binary64 (1 / 5) = 3602879701896397 / 18014398509481984"
  using binary64_eval [of 3 "1 / 5"] by (simp add: round_ties_even_def Let_def)

lemma binary64_1: "binary64 1 = 1"
  using binary64_eval [of 0 1] by (simp add: round_ties_even_def Let_def)

lemma binary64_residue:
  "binary64 (1 - 3602879701896397 / 4503599627370496) = 900719925474099 / 4503599627370496"
  using binary64_eval [of 3 "1 - 3602879701896397 / 4503599627370496"]
  by (simp add: round_ties_even_def Let_def)

lemma binary64_08_id:
  "binary64 (3602879701896397 / 4503599627370496) = 3602879701896397 / 4503599627370496"
  using binary64_eval [of 1 "3602879701896397 / 4503599627370496"]
  by (simp add: round_ties_even_def Let_def)

lemma binary64_residue_id:
  "binary64 (900719925474099 / 4503599627370496) = 900719925474099 / 4503599627370496"
  using binary64_eval [of 3 "900719925474099 / 4503599627370496"]
  by (simp add: round_ties_even_def Let_def)

lemma binary64_02_id:
  "binary64 (3602879701896397 / 18014398509481984) = 3602879701896397 / 18014398509481984"
  using binary64_eval [of 3 "3602879701896397 / 18014398509481984"]
  by (simp add: round_ties_even_def Let_def)

lemma alignment_term:
  assumes "0 \<le> r" "r \<le> r'" "r' \<le> 1"
  shows "binary64 (1 - binary64 (r' * binary64 0.8)) \<le> binary64 (1 - binary64 (r * binary64 0.8))"
    and "residue64 \<le> binary64 (1 - binary64 (r' * binary64 0.8))"
proof -
  define c :: real where "c = binary64 0.8"
  have c: "c = 3602879701896397 / 4503599627370496" by (simp add: c_def binary64_08)
  have c0: "0 \<le> c" by (simp add: c)
  have "r * c \<le> r' * c" using assms c0 by (simp add: mult_right_mono)
  moreover have "0 \<le> r * c" using assms c0 by simp
  ultimately have t: "binary64 (r * c) \<le> binary64 (r' * c)" by (intro binary64_mono)
  have "r' * c \<le> 1 * c" using assms c0 by (intro mult_right_mono)
  moreover have "0 \<le> r' * c" using assms c0 by simp
  ultimately have "binary64 (r' * c) \<le> binary64 (1 * c)" by (intro binary64_mono)
  then have u: "binary64 (r' * c) \<le> 3602879701896397 / 4503599627370496"
    by (simp add: c binary64_08_id)
  then have p: "0 \<le> 1 - binary64 (r' * c)" by simp
  moreover from t have "1 - binary64 (r' * c) \<le> 1 - binary64 (r * c)" by simp
  ultimately have "binary64 (1 - binary64 (r' * c)) \<le> binary64 (1 - binary64 (r * c))"
    by (intro binary64_mono)
  then show "binary64 (1 - binary64 (r' * binary64 0.8))
      \<le> binary64 (1 - binary64 (r * binary64 0.8))"
    by (simp only: c_def)
  have "1 - 3602879701896397 / 4503599627370496 \<le> 1 - binary64 (r' * c)" using u by simp
  moreover have "(0::real) \<le> 1 - 3602879701896397 / 4503599627370496" by simp
  ultimately have "binary64 (1 - 3602879701896397 / 4503599627370496)
      \<le> binary64 (1 - binary64 (r' * c))"
    by (intro binary64_mono)
  then have "residue64 \<le> binary64 (1 - binary64 (r' * c))"
    by (simp only: binary64_residue residue64_def)
  then show "residue64 \<le> binary64 (1 - binary64 (r' * binary64 0.8))"
    by (simp only: c_def)
qed

text \<open>
  Claim C9 (amended). In the double arithmetic of the code, for a belief vector with all
  components in [0,1], the entropy does not decrease when the arousal is raised within
  [0,1] and does not increase when the rhythm alignment is raised within [0,1], the other
  components being kept; and the entropy is at least the arousal times
  0.19999999999999996, rounded: the factor is the double that \<^verbatim>\<open>1.0 - 0.8\<close> evaluates to,
  just below 0.2.
\<close>

theorem calculateEntropy_binary64_monotone:
  assumes "unit_range b"
  shows "(\<forall>a'. arousal b \<le> a' \<and> a' \<le> 1 \<longrightarrow>
            calculateEntropy_binary64 b \<le> calculateEntropy_binary64 (b\<lparr>arousal := a'\<rparr>))
       \<and> (\<forall>r'. rhythm_alignment b \<le> r' \<and> r' \<le> 1 \<longrightarrow>
            calculateEntropy_binary64 (b\<lparr>rhythm_alignment := r'\<rparr>)
              \<le> calculateEntropy_binary64 b)
       \<and> binary64 (arousal b * residue64) \<le> calculateEntropy_binary64 b"
proof (intro conjI allI impI)
  let ?a = "arousal b" and ?r = "rhythm_alignment b"
  define t where "t = (\<lambda>r. binary64 (1.0 - binary64 (r * binary64 0.8)))"
  have ce: "calculateEntropy_binary64 x = min 1 (max 0 (binary64 (arousal x * t (rhythm_alignment x))))"
    for x by (simp only: calculateEntropy_binary64_def t_def)
  from assms have a: "0 \<le> ?a" "?a \<le> 1" and r: "0 \<le> ?r" "?r \<le> 1"
    by (simp_all add: unit_range_def)
  have res: "0 \<le> residue64" "residue64 \<le> 1" by (simp_all add: residue64_def)
  have tm: "t r2 \<le> t r1" and tl: "residue64 \<le> t r2" if "0 \<le> r1" "r1 \<le> r2" "r2 \<le> 1" for r1 r2
    using alignment_term [OF that] by (simp_all add: t_def)
  from tl [OF r(1) order_refl r(2)] have tr: "residue64 \<le> t ?r" .
  with res have t0: "0 \<le> t ?r" by linarith
  {
    fix a' assume h: "?a \<le> a' \<and> a' \<le> 1"
    have "?a * t ?r \<le> a' * t ?r" using h t0 by (simp add: mult_right_mono)
    moreover have "0 \<le> ?a * t ?r" using a t0 by simp
    ultimately have "binary64 (?a * t ?r) \<le> binary64 (a' * t ?r)" by (intro binary64_mono)
    then show "calculateEntropy_binary64 b \<le> calculateEntropy_binary64 (b\<lparr>arousal := a'\<rparr>)"
      by (simp add: ce min_def max_def)
  next
    fix r' assume h: "?r \<le> r' \<and> r' \<le> 1"
    from h have m: "t r' \<le> t ?r" and l: "residue64 \<le> t r'"
      using tm [OF r(1)] tl [OF r(1)] by simp_all
    from l res have "0 \<le> t r'" by linarith
    then have "0 \<le> ?a * t r'" using a by simp
    moreover have "?a * t r' \<le> ?a * t ?r" using m a by (simp add: mult_left_mono)
    ultimately have "binary64 (?a * t r') \<le> binary64 (?a * t ?r)" by (intro binary64_mono)
    then show "calculateEntropy_binary64 (b\<lparr>rhythm_alignment := r'\<rparr>)
        \<le> calculateEntropy_binary64 b"
      by (simp add: ce min_def max_def)
  next
    have n: "0 \<le> ?a * residue64" using a res by simp
    have "?a * residue64 \<le> ?a * t ?r" using a tr by (simp add: mult_left_mono)
    with n have 1: "binary64 (?a * residue64) \<le> binary64 (?a * t ?r)" by (intro binary64_mono)
    have "?a * residue64 \<le> 1 * 1" using a res by (intro mult_mono) simp_all
    then have "?a * residue64 \<le> 1" by simp
    with n have "binary64 (?a * residue64) \<le> binary64 1" by (intro binary64_mono)
    then have 2: "binary64 (?a * residue64) \<le> 1" by (simp add: binary64_1)
    from 1 2 show "binary64 (?a * residue64) \<le> calculateEntropy_binary64 b"
      by (simp add: ce min_def max_def)
  }
qed

text \<open>
  The bound 0.2 times the arousal fails in the doubles: at arousal 1 and alignment 1 the
  entropy is 900719925474099 / 2^52, below 0.2 and below the double nearest to 0.2.
\<close>

theorem calculateEntropy_binary64_counterexample:
  "unit_range \<lparr>arousal = 1, attention = 1, rhythm_alignment = 1\<rparr>
   \<and> calculateEntropy_binary64 \<lparr>arousal = 1, attention = 1, rhythm_alignment = 1\<rparr>
       = 900719925474099 / 4503599627370496
   \<and> calculateEntropy_binary64 \<lparr>arousal = 1, attention = 1, rhythm_alignment = 1\<rparr>
       < 0.2 * arousal \<lparr>arousal = 1, attention = 1, rhythm_alignment = 1\<rparr>
   \<and> calculateEntropy_binary64 \<lparr>arousal = 1, attention = 1, rhythm_alignment = 1\<rparr>
       < binary64 (binary64 0.2 * arousal \<lparr>arousal = 1, attention = 1, rhythm_alignment = 1\<rparr>)"
  by (simp add: unit_range_def calculateEntropy_binary64_def binary64_08 binary64_08_id
      binary64_residue binary64_residue_id binary64_02 binary64_02_id)

text \<open>At the belief (0.5, 0.5, 0.5): raising the arousal to 1, raising the alignment to 1.\<close>

theorem calculateEntropy_binary64_monotone_witness:
  "unit_range \<lparr>arousal = 0.5, attention = 0.5, rhythm_alignment = 0.5\<rparr>
   \<and> calculateEntropy_binary64 \<lparr>arousal = 0.5, attention = 0.5, rhythm_alignment = 0.5\<rparr>
       \<le> calculateEntropy_binary64 \<lparr>arousal = 1, attention = 0.5, rhythm_alignment = 0.5\<rparr>
   \<and> calculateEntropy_binary64 \<lparr>arousal = 0.5, attention = 0.5, rhythm_alignment = 1\<rparr>
       \<le> calculateEntropy_binary64 \<lparr>arousal = 0.5, attention = 0.5, rhythm_alignment = 0.5\<rparr>
   \<and> binary64 (0.5 * residue64)
       \<le> calculateEntropy_binary64 \<lparr>arousal = 0.5, attention = 0.5, rhythm_alignment = 0.5\<rparr>"
proof -
  have u: "unit_range \<lparr>arousal = 0.5, attention = 0.5, rhythm_alignment = 0.5\<rparr>"
    by (simp add: unit_range_def)
  from calculateEntropy_binary64_monotone [OF u] have
    "calculateEntropy_binary64 \<lparr>arousal = 0.5, attention = 0.5, rhythm_alignment = 0.5\<rparr>
       \<le> calculateEntropy_binary64
            (\<lparr>arousal = 0.5, attention = 0.5, rhythm_alignment = 0.5\<rparr>\<lparr>arousal := 1\<rparr>)"
    "calculateEntropy_binary64
       (\<lparr>arousal = 0.5, attention = 0.5, rhythm_alignment = 0.5\<rparr>\<lparr>rhythm_alignment := 1\<rparr>)
       \<le> calculateEntropy_binary64 \<lparr>arousal = 0.5, attention = 0.5, rhythm_alignment = 0.5\<rparr>"
    "binary64 (0.5 * residue64)
       \<le> calculateEntropy_binary64 \<lparr>arousal = 0.5, attention = 0.5, rhythm_alignment = 0.5\<rparr>"
    by simp_all
  with u show ?thesis by simp
qed

subsection \<open>Dispatches that return\<close>

lemma dispatch_internal:
  "dispatch pm h k (PHASE_TRANSITION from to ts) =
     Inr (recalculateEntropy (k\<lparr>eventLog := eventLog k @ [PHASE_TRANSITION from to ts],
       state := (state k)\<lparr>phase := to, phaseElapsed := 0,
         phaseDuration := (case pattern (state k) of Some p \<Rightarrow> timings p to | None \<Rightarrow> 0)\<rparr>\<rparr>))"
  "dispatch pm h k (CYCLE_COMPLETE c ts) =
     Inr (recalculateEntropy (k\<lparr>eventLog := eventLog k @ [CYCLE_COMPLETE c ts],
       state := (state k)\<lparr>cycleCount := c\<rparr>\<rparr>))"
  "dispatch pm h k (SAFETY_INTERVENTION r a ts) =
     Inr (recalculateEntropy (k\<lparr>eventLog := eventLog k @ [SAFETY_INTERVENTION r a ts],
       state := (state k)\<lparr>status := SAFETY_LOCK\<rparr>\<rparr>))"
  by (simp_all add: dispatch.simps)





subsection \<open>Entropy\<close>





subsection \<open>Reducer\<close>

text \<open>
  Claim C4 (amended). Dispatching \<^verbatim>\<open>START_SESSION\<close> sets the status to \<^verbatim>\<open>RUNNING\<close>
  whenever a pattern is loaded, whatever the current status, and otherwise changes no
  field but the recomputed entropy; with no pattern loaded it changes no field but the
  recomputed entropy. Where the entropy is that of the belief, as in every reachable
  kernel, the recomputation changes nothing: the state is the old one with the status
  \<^verbatim>\<open>RUNNING\<close>, or the old one. The event is appended to the log.
\<close>

theorem start_session_effect:
  "dispatch pm h k (START_SESSION ts) =
     Inr (k\<lparr>eventLog := eventLog k @ [START_SESSION ts],
            state := (if pattern (state k) = None
                      then (state k)\<lparr>entropy := calculateEntropy (belief (state k))\<rparr>
                      else (state k)\<lparr>status := RUNNING,
                             entropy := calculateEntropy (belief (state k))\<rparr>)\<rparr>)
   \<and> (entropy_of_belief (state k) \<longrightarrow>
        dispatch pm h k (START_SESSION ts) =
          Inr (k\<lparr>eventLog := eventLog k @ [START_SESSION ts],
                 state := (if pattern (state k) = None then state k
                           else (state k)\<lparr>status := RUNNING\<rparr>)\<rparr>))"
  by (simp add: dispatch.simps recalculateEntropy_def entropy_of_belief_iff)

text \<open>
  A paused session of \<^verbatim>\<open>box\<close> is set running by \<^verbatim>\<open>START_SESSION\<close>: the reducer asks
  for a pattern, not for the status \<^verbatim>\<open>IDLE\<close>.
\<close>

theorem start_session_counterexample:
  "status (state paused_box) = PAUSED
   \<and> dispatch phaseMachine host0 paused_box (START_SESSION 0) =
       Inr (paused_box\<lparr>eventLog := eventLog paused_box @ [START_SESSION 0],
              state := (state paused_box)\<lparr>status := RUNNING\<rparr>\<rparr>)
   \<and> (state paused_box)\<lparr>status := RUNNING\<rparr> \<noteq> state paused_box"
  by (simp add: paused_box_def dispatch.simps recalculateEntropy_def box_pattern
      calculateEntropy_def)

text \<open>The paused session is set running; the fresh kernel, with no pattern, is unchanged.\<close>

theorem start_session_effect_witness:
  "entropy_of_belief (state paused_box)
   \<and> dispatch phaseMachine host0 paused_box (START_SESSION 0) =
       Inr (paused_box\<lparr>eventLog := eventLog paused_box @ [START_SESSION 0],
              state := (state paused_box)\<lparr>status := RUNNING\<rparr>\<rparr>)
   \<and> entropy_of_belief (state kernel0)
   \<and> dispatch phaseMachine host0 kernel0 (START_SESSION 0) =
       Inr (kernel0\<lparr>eventLog := eventLog kernel0 @ [START_SESSION 0]\<rparr>)"
  using start_session_effect [of phaseMachine host0 paused_box 0]
    start_session_effect [of phaseMachine host0 kernel0 0]
  by (simp add: paused_box_def kernel0_def box_pattern entropy_of_belief_iff
      calculateEntropy_def getInitialState_def)

text \<open>
  A \<^verbatim>\<open>LOAD_PROTOCOL\<close> whose lookup in the catalog is \<^verbatim>\<open>undefined\<close> returns the kernel with
  the event appended to its log and nothing else changed, as for the id \<^verbatim>\<open>unknown\<close> on
  the fresh kernel.
\<close>

lemma load_absent:
  "BREATHING_PATTERNS_index pid = Absent \<Longrightarrow>
     dispatch pm h k (LOAD_PROTOCOL pid ts) =
       Inr (k\<lparr>eventLog := eventLog k @ [LOAD_PROTOCOL pid ts]\<rparr>)"
  by (simp add: dispatch.simps)

lemma load_absent_unknown:
  "dispatch phaseMachine host0 kernel0 (LOAD_PROTOCOL ''unknown'' 7) =
     Inr \<lparr>state = getInitialState, eventLog = [BOOT 0, LOAD_PROTOCOL ''unknown'' 7],
          safetyRegistry = Map.empty\<rparr>"
  by (simp add: load_absent BREATHING_PATTERNS_index_def BREATHING_PATTERNS_def
      Object_prototype_def kernel0_def)

text \<open>
  Claim C6. A \<^verbatim>\<open>LOAD_PROTOCOL\<close> with an id that is no entry of the catalog is to leave
  every field of the state unchanged and to surface no error, the event being appended
  to the log. The reducer does so only where the lookup is \<^verbatim>\<open>undefined\<close>. The id
  \<^verbatim>\<open>constructor\<close> is no entry of the catalog either, but the lookup finds the inherited
  property, the test \<^verbatim>\<open>!pattern\<close> lets it pass, and the dispatch throws a TypeError.
\<close>

theorem load_inherited_throws:
  "BREATHING_PATTERNS ''constructor'' = None
   \<and> BREATHING_PATTERNS_index ''constructor'' = Inherited
   \<and> dispatch phaseMachine host0 kernel0 (LOAD_PROTOCOL ''constructor'' 0) = Inl TypeError"
  by (simp add: dispatch.simps BREATHING_PATTERNS_index_def BREATHING_PATTERNS_def
      Object_prototype_def)

text \<open>
  Claim C7. Dispatching \<^verbatim>\<open>USER_INTERRUPTION\<close> in status \<^verbatim>\<open>RUNNING\<close> sets the status to
  \<^verbatim>\<open>PAUSED\<close>, multiplies the attention by 0.8 and the rhythm alignment by 0.5 and
  recomputes the entropy; a second one right after it changes nothing more. In any other
  status it changes no field but the recomputed entropy, and nothing at all where the
  entropy is that of the belief, as in every reachable kernel.
\<close>

theorem user_interruption_effect:
  "(status (state k) = RUNNING \<longrightarrow>
      (\<exists>k1. dispatch pm h k (USER_INTERRUPTION kind ts) = Inr k1
         \<and> state k1 =
            (let b = (belief (state k))\<lparr>
                   attention := attention (belief (state k)) * 0.8,
                   rhythm_alignment := rhythm_alignment (belief (state k)) * 0.5\<rparr>
             in (state k)\<lparr>status := PAUSED, belief := b, entropy := calculateEntropy b\<rparr>)
         \<and> (\<exists>k2. dispatch pm h' k1 (USER_INTERRUPTION kind' ts') = Inr k2
                \<and> state k2 = state k1)))
   \<and> (status (state k) \<noteq> RUNNING \<longrightarrow>
      (\<exists>k1. dispatch pm h k (USER_INTERRUPTION kind ts) = Inr k1
         \<and> state k1 = (state k)\<lparr>entropy := calculateEntropy (belief (state k))\<rparr>))
   \<and> (status (state k) \<noteq> RUNNING \<and> entropy_of_belief (state k) \<longrightarrow>
      (\<exists>k1. dispatch pm h k (USER_INTERRUPTION kind ts) = Inr k1 \<and> state k1 = state k))"
  by (simp add: dispatch.simps state_recalculateEntropy entropy_of_belief_iff Let_def)

text \<open>
  The running session of \<^verbatim>\<open>box\<close> is paused with the attention 0.6 * 0.8 and the
  alignment 0.2 * 0.5; the paused one is left as it is.
\<close>

theorem user_interruption_effect_witness:
  "status (state box_session) = RUNNING
   \<and> (\<exists>k1. dispatch phaseMachine host0 box_session (USER_INTERRUPTION kind_pause 0) = Inr k1
         \<and> state k1 = (state box_session)\<lparr>status := PAUSED,
              belief := \<lparr>arousal = 0.15, attention = 0.48, rhythm_alignment = 0.1\<rparr>,
              entropy := 0.138\<rparr>)
   \<and> status (state paused_box) \<noteq> RUNNING \<and> entropy_of_belief (state paused_box)
   \<and> (\<exists>k1. dispatch phaseMachine host0 paused_box (USER_INTERRUPTION kind_pause 0) = Inr k1
         \<and> state k1 = state paused_box)"
  using user_interruption_effect [of box_session phaseMachine host0 kind_pause 0 host0 kind_pause 0]
    user_interruption_effect [of paused_box phaseMachine host0 kind_pause 0 host0 kind_pause 0]
  by (auto simp: box_session_def paused_box_def entropy_of_belief_iff calculateEntropy_def
      Let_def)

text \<open>
  Claim C10. Reducing \<^verbatim>\<open>HALT\<close> sets the status to \<^verbatim>\<open>IDLE\<close> and reducing
  \<^verbatim>\<open>SAFETY_INTERVENTION\<close> sets it to \<^verbatim>\<open>SAFETY_LOCK\<close>; pattern, phase, phaseElapsed,
  phaseDuration, cycleCount, sessionDuration and belief are the old ones, and the entropy
  is recomputed from the unchanged belief, so that the status is the only field that
  changes where the entropy was that of the belief. Neither reduction touches the log or
  the registry.
\<close>

theorem halt_intervention_frame:
  "reduce pm h k (HALT reason ts) =
     Inr (k\<lparr>state := (state k)\<lparr>status := IDLE,
            entropy := calculateEntropy (belief (state k))\<rparr>\<rparr>)
   \<and> reduce pm h k (SAFETY_INTERVENTION riskLevel action ts') =
     Inr (k\<lparr>state := (state k)\<lparr>status := SAFETY_LOCK,
            entropy := calculateEntropy (belief (state k))\<rparr>\<rparr>)
   \<and> (entropy_of_belief (state k) \<longrightarrow>
        reduce pm h k (HALT reason ts) = Inr (k\<lparr>state := (state k)\<lparr>status := IDLE\<rparr>\<rparr>)
        \<and> reduce pm h k (SAFETY_INTERVENTION riskLevel action ts') =
            Inr (k\<lparr>state := (state k)\<lparr>status := SAFETY_LOCK\<rparr>\<rparr>))"
  by (simp add: recalculateEntropy_def entropy_of_belief_iff)

text \<open>Halting and locking the running session of \<^verbatim>\<open>box\<close>.\<close>

theorem halt_intervention_frame_witness:
  "entropy_of_belief (state box_session)
   \<and> reduce phaseMachine host0 box_session (HALT ''cleanup'' 0)
     = Inr (box_session\<lparr>state := (state box_session)\<lparr>status := IDLE\<rparr>\<rparr>)
   \<and> reduce phaseMachine host0 box_session (SAFETY_INTERVENTION 0.9 ''HALT_PREVENTATIVE'' 0)
     = Inr (box_session\<lparr>state := (state box_session)\<lparr>status := SAFETY_LOCK\<rparr>\<rparr>)"
  using halt_intervention_frame [of phaseMachine host0 box_session "''cleanup''" 0
      "0.9" "''HALT_PREVENTATIVE''" 0]
  by (simp add: box_session_def entropy_of_belief_iff calculateEntropy_def)

subsection \<open>Cycle count\<close>

lemma transitionPhase_effect:
  assumes "pattern (state k) = Some p"
  shows "\<exists>k'. transitionPhase pm h k = Inr k'
     \<and> eventLog k' =
         eventLog k
         @ PHASE_TRANSITION (phase (state k)) (pm_nextPhaseSkipZero pm (phase (state k)) p)
             (Date_now h)
         # (if pm_isCycleBoundary pm (pm_nextPhaseSkipZero pm (phase (state k)) p)
            then [CYCLE_COMPLETE (cycleCount (state k) + 1) (Date_now h)] else [])
     \<and> cycleCount (state k') =
         (if pm_isCycleBoundary pm (pm_nextPhaseSkipZero pm (phase (state k)) p)
          then cycleCount (state k) + 1 else cycleCount (state k))"
  using assms
  by (simp add: transitionPhase.simps dispatch_internal state_recalculateEntropy Let_def)

lemma cycleCount_handleTick:
  assumes "handleTick pm h k dt = Inr k'"
  shows "cycleCount (state k') =
           (if closes_cycle pm k dt then cycleCount (state k) + 1 else cycleCount (state k))"
  using assms
  by (auto simp: handleTick.simps Let_def closes_cycle_def transitionPhase.simps
      dispatch_internal state_recalculateEntropy
      dest!: check_Some split: sum.splits option.splits if_splits)

lemma closes_cycle_eventLog [simp]:
  "closes_cycle pm (k\<lparr>eventLog := l\<rparr>) dt = closes_cycle pm k dt"
  by (simp add: closes_cycle_def split: option.splits)

lemma cycleCount_step:
  assumes "dispatch pm h k event = Inr k'" and "\<not> cycle_event event" and "\<not> resolving event"
  shows "cycleCount (state k) \<le> cycleCount (state k')"
proof (cases event)
  case (TICK dt ts)
  with assms(1) obtain k1
    where t: "handleTick pm h (k\<lparr>eventLog := eventLog k @ [event]\<rparr>) dt = Inr k1"
      and k': "k' = recalculateEntropy k1"
    by (auto simp: dispatch.simps split: sum.splits)
  from cycleCount_handleTick [OF t] k' show ?thesis
    by (simp add: state_recalculateEntropy)
next
  case (LOAD_PROTOCOL pid ts)
  with assms(3) have "BREATHING_PATTERNS pid = None" by (simp add: resolving_def)
  with LOAD_PROTOCOL assms(1) show ?thesis
    by (auto simp: dispatch.simps BREATHING_PATTERNS_index_def split: if_splits)
next
  case (CYCLE_COMPLETE c ts)
  with assms(2) show ?thesis by (simp add: cycle_event_def)
qed (use assms(1) in \<open>auto simp: dispatch.simps state_recalculateEntropy\<close>)

lemma cycleCount_dispatchAll:
  assumes "dispatchAll pm k evs = Inr k'"
    and "\<forall>(h, event) \<in> set evs. \<not> cycle_event event \<and> \<not> resolving event"
  shows "cycleCount (state k) \<le> cycleCount (state k')"
  using assms
proof (induction evs arbitrary: k)
  case Nil
  then show ?case by simp
next
  case (Cons a evs)
  obtain h event where a: "a = (h, event)" by (cases a)
  from Cons.prems(1) a obtain k1 where d: "dispatch pm h k event = Inr k1"
    and r: "dispatchAll pm k1 evs = Inr k'"
    by (auto split: sum.splits)
  from Cons.prems(2) a have e: "\<not> cycle_event event" "\<not> resolving event"
    and rest: "\<forall>(h, event) \<in> set evs. \<not> cycle_event event \<and> \<not> resolving event"
    by auto
  from cycleCount_step [OF d e] have "cycleCount (state k) \<le> cycleCount (state k1)" .
  also from Cons.IH [OF r rest] have "\<dots> \<le> cycleCount (state k')" .
  finally show ?case .
qed

text \<open>
  Claim C8. The events of a run are the ones its callers dispatch and the ones the kernel
  raises itself inside a tick; \<^verbatim>\<open>CYCLE_COMPLETE\<close> is of the second kind. From any
  state and whatever the phase machine: a dispatch of an event other than
  \<^verbatim>\<open>CYCLE_COMPLETE\<close> does not decrease the cycle count, unless it is a \<^verbatim>\<open>LOAD_PROTOCOL\<close>
  that resolves to a catalog pattern, which resets it to 0; a tick leaves the count, or
  adds one exactly when it closes a cycle; the phase transition of a tick appends the
  \<^verbatim>\<open>PHASE_TRANSITION\<close>, which leaves the count, and at a cycle boundary one
  \<^verbatim>\<open>CYCLE_COMPLETE\<close> that carries the count plus one, which becomes the count; and over
  any sequence of dispatches without \<^verbatim>\<open>CYCLE_COMPLETE\<close> and resolving \<^verbatim>\<open>LOAD_PROTOCOL\<close>
  the count at the end is at least the count at the start.
\<close>

theorem cycleCount_dispatch:
  "(\<not> cycle_event event \<and> \<not> resolving event \<and> dispatch pm h k event = Inr k'
      \<longrightarrow> cycleCount (state k) \<le> cycleCount (state k'))
   \<and> (resolving event \<longrightarrow>
        (\<exists>k1. dispatch pm h k event = Inr k1 \<and> cycleCount (state k1) = 0))
   \<and> (dispatch pm h k (TICK dt ts) = Inr k'
      \<longrightarrow> cycleCount (state k') =
           (if closes_cycle pm k dt then cycleCount (state k) + 1 else cycleCount (state k)))
   \<and> (pattern (state k) = Some p \<longrightarrow>
        (\<exists>k1. transitionPhase pm h k = Inr k1
           \<and> eventLog k1 =
               eventLog k
               @ PHASE_TRANSITION (phase (state k))
                   (pm_nextPhaseSkipZero pm (phase (state k)) p) (Date_now h)
               # (if pm_isCycleBoundary pm (pm_nextPhaseSkipZero pm (phase (state k)) p)
                  then [CYCLE_COMPLETE (cycleCount (state k) + 1) (Date_now h)] else [])
           \<and> cycleCount (state k1) =
               (if pm_isCycleBoundary pm (pm_nextPhaseSkipZero pm (phase (state k)) p)
                then cycleCount (state k) + 1 else cycleCount (state k))))
   \<and> ((\<forall>(h, event) \<in> set evs. \<not> cycle_event event \<and> \<not> resolving event)
        \<and> dispatchAll pm k evs = Inr k'
      \<longrightarrow> cycleCount (state k) \<le> cycleCount (state k'))"
proof (intro conjI impI)
  assume "\<not> cycle_event event \<and> \<not> resolving event \<and> dispatch pm h k event = Inr k'"
  then show "cycleCount (state k) \<le> cycleCount (state k')"
    using cycleCount_step by blast
next
  assume "resolving event"
  then show "\<exists>k1. dispatch pm h k event = Inr k1 \<and> cycleCount (state k1) = 0"
    by (cases event)
      (auto simp: resolving_def dispatch.simps index_Own state_recalculateEntropy)
next
  assume d: "dispatch pm h k (TICK dt ts) = Inr k'"
  then obtain k1
    where t: "handleTick pm h (k\<lparr>eventLog := eventLog k @ [TICK dt ts]\<rparr>) dt = Inr k1"
      and k': "k' = recalculateEntropy k1"
    by (auto simp: dispatch.simps split: sum.splits)
  from cycleCount_handleTick [OF t] k'
  show "cycleCount (state k') =
      (if closes_cycle pm k dt then cycleCount (state k) + 1 else cycleCount (state k))"
    by (simp add: state_recalculateEntropy)
next
  assume "pattern (state k) = Some p"
  then show "\<exists>k1. transitionPhase pm h k = Inr k1
           \<and> eventLog k1 =
               eventLog k
               @ PHASE_TRANSITION (phase (state k))
                   (pm_nextPhaseSkipZero pm (phase (state k)) p) (Date_now h)
               # (if pm_isCycleBoundary pm (pm_nextPhaseSkipZero pm (phase (state k)) p)
                  then [CYCLE_COMPLETE (cycleCount (state k) + 1) (Date_now h)] else [])
           \<and> cycleCount (state k1) =
               (if pm_isCycleBoundary pm (pm_nextPhaseSkipZero pm (phase (state k)) p)
                then cycleCount (state k) + 1 else cycleCount (state k))"
    by (rule transitionPhase_effect)
next
  assume "(\<forall>(h, event) \<in> set evs. \<not> cycle_event event \<and> \<not> resolving event)
        \<and> dispatchAll pm k evs = Inr k'"
  then show "cycleCount (state k) \<le> cycleCount (state k')"
    using cycleCount_dispatchAll by blast
qed

text \<open>
  From two counted cycles at the start of a hold-out phase: a tick of four seconds closes
  the third cycle and logs it, a pause followed by a tick leaves two, and loading
  \<^verbatim>\<open>calm\<close> resets the count to 0.
\<close>

lemma tick_box_hold_out:
  "dispatch phaseMachine host0 box_hold_out (TICK 4 0) =
     Inr \<lparr>state =
        \<lparr>status = RUNNING, pattern = BREATHING_PATTERNS ''box'', phase = inhale,
         phaseElapsed = 0, phaseDuration = 4, cycleCount = 3, sessionDuration = 48,
         belief = \<lparr>arousal = 0, attention = 1, rhythm_alignment = 1\<rparr>,
         entropy = 0\<rparr>,
      eventLog = [TICK 4 0, PHASE_TRANSITION holdOut inhale 0, CYCLE_COMPLETE 3 0],
      safetyRegistry = Map.empty\<rparr>"
  by (simp add: box_hold_out_def box_pattern dispatch.simps handleTick.simps
      transitionPhase.simps recalculateEntropy_def calculateEntropy_def update_def check_def
      host0_def Let_def phaseMachine_def nextPhaseSkipZero_def isCycleBoundary_def
      numeral_3_eq_3)

theorem cycleCount_dispatch_witness:
  "cycleCount (state box_hold_out) = 2
   \<and> \<not> cycle_event (TICK 4 0) \<and> \<not> resolving (TICK 4 0)
   \<and> closes_cycle phaseMachine box_hold_out 4
   \<and> (\<exists>k1. dispatch phaseMachine host0 box_hold_out (TICK 4 0) = Inr k1
          \<and> cycleCount (state k1) = 3
          \<and> eventLog k1 = [TICK 4 0, PHASE_TRANSITION holdOut inhale 0, CYCLE_COMPLETE 3 0])
   \<and> \<not> cycle_event (USER_INTERRUPTION kind_pause 0)
   \<and> \<not> resolving (USER_INTERRUPTION kind_pause 0)
   \<and> (\<exists>k2. dispatchAll phaseMachine box_hold_out
               [(host0, USER_INTERRUPTION kind_pause 0), (host0, TICK 4 0)] = Inr k2
          \<and> cycleCount (state k2) = 2)
   \<and> resolving (LOAD_PROTOCOL ''calm'' 0)
   \<and> (\<exists>k3. dispatch phaseMachine host0 box_hold_out (LOAD_PROTOCOL ''calm'' 0) = Inr k3
          \<and> cycleCount (state k3) = 0)"
proof -
  have e: "\<not> cycle_event (TICK 4 0)" "\<not> resolving (TICK 4 0)"
    "\<not> cycle_event (USER_INTERRUPTION kind_pause 0)"
    "\<not> resolving (USER_INTERRUPTION kind_pause 0)"
    "resolving (LOAD_PROTOCOL ''calm'' 0)"
    by (simp_all add: cycle_event_def resolving_def BREATHING_PATTERNS_def)
  have c: "closes_cycle phaseMachine box_hold_out 4"
    by (simp add: closes_cycle_def box_hold_out_def box_pattern phaseMachine_def
        nextPhaseSkipZero_def isCycleBoundary_def numeral_3_eq_3)
  have s: "\<exists>k2. dispatchAll phaseMachine box_hold_out
               [(host0, USER_INTERRUPTION kind_pause 0), (host0, TICK 4 0)] = Inr k2
          \<and> cycleCount (state k2) = 2"
    by (simp add: box_hold_out_def box_pattern dispatch.simps handleTick.simps
        recalculateEntropy_def Let_def)
  note t = cycleCount_dispatch [of "TICK 4 0" phaseMachine host0 box_hold_out _ 4 0]
  note l = cycleCount_dispatch [of "LOAD_PROTOCOL ''calm'' 0" phaseMachine host0 box_hold_out]
  from l e obtain k3
    where "dispatch phaseMachine host0 box_hold_out (LOAD_PROTOCOL ''calm'' 0) = Inr k3"
      and "cycleCount (state k3) = 0"
    by blast
  moreover from t c tick_box_hold_out
  have "\<exists>k1. dispatch phaseMachine host0 box_hold_out (TICK 4 0) = Inr k1
          \<and> cycleCount (state k1) = 3
          \<and> eventLog k1 = [TICK 4 0, PHASE_TRANSITION holdOut inhale 0, CYCLE_COMPLETE 3 0]"
    by simp
  ultimately show ?thesis using e c s by (auto simp: box_hold_out_def)
qed

subsection \<open>A session of the pattern box\<close>

lemma box_next:
  "nextPhaseSkipZero ph \<lparr>id_p = i, label = l, tag = t, description = d,
     timings = mk_timings 4 4 4 4, colorTheme = c, recommendedCycles = r, tier = n\<rparr>
   = successor ph"
  by (cases ph) (simp_all add: nextPhaseSkipZero_def numeral_3_eq_3)

lemma box_timing: "mk_timings 4 4 4 4 ph = 4"
  by (cases ph) simp_all

lemma box_tick:
  assumes "box_running k"
  shows "\<exists>k'. dispatch phaseMachine h k (TICK 4 t) = Inr k'
     \<and> box_running k'
     \<and> phase (state k') = successor (phase (state k))
     \<and> eventLog k' =
           eventLog k @ TICK 4 t
             # PHASE_TRANSITION (phase (state k)) (successor (phase (state k))) (Date_now h)
             # (if successor (phase (state k)) = inhale
                then [CYCLE_COMPLETE (cycleCount (state k) + 1) (Date_now h)] else [])
     \<and> cycleCount (state k') =
           (if successor (phase (state k)) = inhale
            then cycleCount (state k) + 1 else cycleCount (state k))"
  using assms
  by (simp add: box_running_def box_pattern box_next box_timing dispatch.simps
      handleTick.simps transitionPhase.simps state_recalculateEntropy check_def
      phaseMachine_def isCycleBoundary_def Let_def)

lemma box_started:
  "\<exists>k0. dispatchAll phaseMachine (setSafetyRegistry k Map.empty)
          [(ha, LOAD_PROTOCOL ''box'' ta), (hb, START_SESSION tb)] = Inr k0
     \<and> box_running k0 \<and> phase (state k0) = inhale \<and> cycleCount (state k0) = 0
     \<and> eventLog k0 = eventLog k @ [LOAD_PROTOCOL ''box'' ta, START_SESSION tb]"
  by (simp add: box_running_def box_pattern index_Own dispatch.simps state_recalculateEntropy
      setSafetyRegistry_def)

text \<open>
  Claim C3. From any kernel, with the registry set empty, \<^verbatim>\<open>box\<close> loaded by
  \<^verbatim>\<open>LOAD_PROTOCOL\<close> and started by \<^verbatim>\<open>START_SESSION\<close>, four dispatches of \<^verbatim>\<open>TICK\<close> with
  dt = 4 return and append to the log, after each tick itself, exactly the transitions
  inhale to holdIn, holdIn to exhale, exhale to holdOut, each with no \<^verbatim>\<open>CYCLE_COMPLETE\<close>,
  and then holdOut to inhale followed by one \<^verbatim>\<open>CYCLE_COMPLETE\<close> with count 1; the phase
  and the cycle count of the state follow. This holds whatever the host shows during each
  dispatch, so in particular with the document visible throughout.
\<close>

theorem box_four_ticks:
  "\<exists>k0 k1 k2 k3 k4.
      dispatchAll phaseMachine (setSafetyRegistry k Map.empty)
        [(ha, LOAD_PROTOCOL ''box'' ta), (hb, START_SESSION tb)] = Inr k0
      \<and> dispatch phaseMachine h1 k0 (TICK 4 t1) = Inr k1
      \<and> dispatch phaseMachine h2 k1 (TICK 4 t2) = Inr k2
      \<and> dispatch phaseMachine h3 k2 (TICK 4 t3) = Inr k3
      \<and> dispatch phaseMachine h4 k3 (TICK 4 t4) = Inr k4
      \<and> phase (state k0) = inhale \<and> cycleCount (state k0) = 0
      \<and> eventLog k1 = eventLog k0 @ [TICK 4 t1, PHASE_TRANSITION inhale holdIn (Date_now h1)]
      \<and> phase (state k1) = holdIn \<and> cycleCount (state k1) = 0
      \<and> eventLog k2 = eventLog k1 @ [TICK 4 t2, PHASE_TRANSITION holdIn exhale (Date_now h2)]
      \<and> phase (state k2) = exhale \<and> cycleCount (state k2) = 0
      \<and> eventLog k3 = eventLog k2 @ [TICK 4 t3, PHASE_TRANSITION exhale holdOut (Date_now h3)]
      \<and> phase (state k3) = holdOut \<and> cycleCount (state k3) = 0
      \<and> eventLog k4 = eventLog k3 @ [TICK 4 t4, PHASE_TRANSITION holdOut inhale (Date_now h4),
                                       CYCLE_COMPLETE 1 (Date_now h4)]
      \<and> phase (state k4) = inhale \<and> cycleCount (state k4) = 1"
proof -
  from box_started [of k ha ta hb tb] obtain k0
    where d0: "dispatchAll phaseMachine (setSafetyRegistry k Map.empty)
          [(ha, LOAD_PROTOCOL ''box'' ta), (hb, START_SESSION tb)] = Inr k0"
      and r0: "box_running k0" and p0: "phase (state k0) = inhale"
      and c0: "cycleCount (state k0) = 0"
    by blast
  from box_tick [OF r0, of h1 t1] p0 c0 obtain k1
    where d1: "dispatch phaseMachine h1 k0 (TICK 4 t1) = Inr k1"
      and r1: "box_running k1" and p1: "phase (state k1) = holdIn"
      and c1: "cycleCount (state k1) = 0"
      and l1: "eventLog k1 = eventLog k0 @ [TICK 4 t1, PHASE_TRANSITION inhale holdIn (Date_now h1)]"
    by auto
  from box_tick [OF r1, of h2 t2] p1 c1 obtain k2
    where d2: "dispatch phaseMachine h2 k1 (TICK 4 t2) = Inr k2"
      and r2: "box_running k2" and p2: "phase (state k2) = exhale"
      and c2: "cycleCount (state k2) = 0"
      and l2: "eventLog k2 = eventLog k1 @ [TICK 4 t2, PHASE_TRANSITION holdIn exhale (Date_now h2)]"
    by auto
  from box_tick [OF r2, of h3 t3] p2 c2 obtain k3
    where d3: "dispatch phaseMachine h3 k2 (TICK 4 t3) = Inr k3"
      and r3: "box_running k3" and p3: "phase (state k3) = holdOut"
      and c3: "cycleCount (state k3) = 0"
      and l3: "eventLog k3 = eventLog k2 @ [TICK 4 t3, PHASE_TRANSITION exhale holdOut (Date_now h3)]"
    by auto
  from box_tick [OF r3, of h4 t4] p3 c3 obtain k4
    where d4: "dispatch phaseMachine h4 k3 (TICK 4 t4) = Inr k4"
      and p4: "phase (state k4) = inhale" and c4: "cycleCount (state k4) = 1"
      and l4: "eventLog k4 = eventLog k3 @ [TICK 4 t4, PHASE_TRANSITION holdOut inhale (Date_now h4),
                                       CYCLE_COMPLETE 1 (Date_now h4)]"
    by auto
  from d0 d1 d2 d3 d4 p0 c0 p1 c1 l1 p2 c2 l2 p3 c3 l3 p4 c4 l4 show ?thesis by blast
qed

text \<open>The session on the fresh kernel with a visible document: the whole log.\<close>

theorem box_four_ticks_witness:
  "\<exists>k0 k4.
      dispatchAll phaseMachine (setSafetyRegistry kernel0 Map.empty)
        [(host0, LOAD_PROTOCOL ''box'' 0), (host0, START_SESSION 0)] = Inr k0
      \<and> dispatchAll phaseMachine k0
          [(host0, TICK 4 1), (host0, TICK 4 2), (host0, TICK 4 3), (host0, TICK 4 4)] = Inr k4
      \<and> eventLog k0 = [BOOT 0, LOAD_PROTOCOL ''box'' 0, START_SESSION 0]
      \<and> eventLog k4 =
          [BOOT 0, LOAD_PROTOCOL ''box'' 0, START_SESSION 0,
           TICK 4 1, PHASE_TRANSITION inhale holdIn 0,
           TICK 4 2, PHASE_TRANSITION holdIn exhale 0,
           TICK 4 3, PHASE_TRANSITION exhale holdOut 0,
           TICK 4 4, PHASE_TRANSITION holdOut inhale 0, CYCLE_COMPLETE 1 0]
      \<and> phase (state k4) = inhale \<and> cycleCount (state k4) = 1"
proof -
  from box_four_ticks [of kernel0 host0 0 host0 0 host0 1 host0 2 host0 3 host0 4]
  obtain k0 k1 k2 k3 k4
    where d0: "dispatchAll phaseMachine (setSafetyRegistry kernel0 Map.empty)
        [(host0, LOAD_PROTOCOL ''box'' 0), (host0, START_SESSION 0)] = Inr k0"
      and d: "dispatch phaseMachine host0 k0 (TICK 4 1) = Inr k1"
        "dispatch phaseMachine host0 k1 (TICK 4 2) = Inr k2"
        "dispatch phaseMachine host0 k2 (TICK 4 3) = Inr k3"
        "dispatch phaseMachine host0 k3 (TICK 4 4) = Inr k4"
      and l: "eventLog k1 = eventLog k0 @ [TICK 4 1, PHASE_TRANSITION inhale holdIn (Date_now host0)]"
        "eventLog k2 = eventLog k1 @ [TICK 4 2, PHASE_TRANSITION holdIn exhale (Date_now host0)]"
        "eventLog k3 = eventLog k2 @ [TICK 4 3, PHASE_TRANSITION exhale holdOut (Date_now host0)]"
        "eventLog k4 = eventLog k3 @ [TICK 4 4, PHASE_TRANSITION holdOut inhale (Date_now host0),
                                       CYCLE_COMPLETE 1 (Date_now host0)]"
      and p: "phase (state k4) = inhale" "cycleCount (state k4) = 1"
    by blast
  from box_started [of kernel0 host0 0 host0 0] d0
  have l0: "eventLog k0 = [BOOT 0, LOAD_PROTOCOL ''box'' 0, START_SESSION 0]"
    by (auto simp: kernel0_def)
  have n: "Date_now host0 = 0" by (simp add: host0_def)
  from d have "dispatchAll phaseMachine k0
      [(host0, TICK 4 1), (host0, TICK 4 2), (host0, TICK 4 3), (host0, TICK 4 4)] = Inr k4"
    by simp
  with d0 l l0 p n show ?thesis by simp
qed

end
